theory Spec2Isabelle
  imports Complex_Main "HOL-Library.Sublist"
begin

section \<open>JavaScript values\<close>

text \<open>
  A JavaScript number: a finite value (every double is a rational; \<open>-0\<close> is \<open>0\<close>, from
  which neither \<open>===\<close> nor truthiness nor string conversion tells it apart), an infinity
  or NaN. The source does no arithmetic on the numbers it receives.
\<close>

datatype number = Finite rat | PosInfinity | NegInfinity | NaN

text \<open>
  The values that cross the extension's message channel, sit in \<open>chrome.storage.local\<close>
  or come back from \<open>response.json()\<close>. An object is the list of its own members, with
  distinct keys.
\<close>

datatype jsval =
    Undefined
  | Null
  | Bool bool
  | Num number
  | Str string
  | Arr "jsval list"
  | Obj "(string \<times> jsval) list"

datatype js_error = Error string | TypeError string | SyntaxError string

text \<open>\<open>error.message\<close>\<close>

fun message_of :: "js_error \<Rightarrow> string" where
  "message_of (Error m) = m"
| "message_of (TypeError m) = m"
| "message_of (SyntaxError m) = m"

text \<open>JavaScript truthiness, as used by \<open>if (x)\<close> and \<open>x || y\<close>.\<close>

fun truthy :: "jsval \<Rightarrow> bool" where
  "truthy Undefined = False"
| "truthy Null = False"
| "truthy (Bool b) = b"
| "truthy (Num n) = (n \<noteq> Finite 0 \<and> n \<noteq> NaN)"
| "truthy (Str s) = (s \<noteq> [])"
| "truthy (Arr xs) = True"
| "truthy (Obj fs) = True"

text \<open>Reading a property of an object literal: a missing key reads as \<open>undefined\<close>.\<close>

definition field :: "(string \<times> jsval) list \<Rightarrow> string \<Rightarrow> jsval" where
  "field fs k = (case map_of fs k of None \<Rightarrow> Undefined | Some v \<Rightarrow> v)"


text \<open>Decimal rendering of a natural number (an HTTP status code).\<close>

fun show_nat :: "nat \<Rightarrow> string" where
  "show_nat n =
     (if n < 10 then [''0123456789'' ! n]
      else show_nat (n div 10) @ [''0123456789'' ! (n mod 10)])"




text \<open>
  \<open>JSON.stringify\<close> of an object literal: a property whose value is \<open>undefined\<close> is
  left out. The body is kept as the list of members the server parses, in order.
\<close>

definition stringify_members :: "(string \<times> jsval) list \<Rightarrow> (string \<times> jsval) list" where
  "stringify_members fs = filter (\<lambda>(k, v). v \<noteq> Undefined) fs"

text \<open>\<open>s.includes(sub)\<close>\<close>

fun str_includes :: "string \<Rightarrow> string \<Rightarrow> bool" where
  "str_includes [] sub = (sub = [])"
| "str_includes (c # cs) sub = (prefix sub (c # cs) \<or> str_includes cs sub)"

text \<open>\<open>s.split(c)\<close> for a one-character separator: never the empty array.\<close>

fun split_char :: "char \<Rightarrow> string \<Rightarrow> string list" where
  "split_char c [] = [[]]"
| "split_char c (x # xs) =
     (if x = c then [] # split_char c xs
      else (case split_char c xs of
              [] \<Rightarrow> [[x]]
            | w # ws \<Rightarrow> (x # w) # ws))"

text \<open>\<open>arr.pop()\<close>: the last element, \<open>undefined\<close> on an empty array.\<close>

definition pop :: "string list \<Rightarrow> jsval" where
  "pop xs = (case rev xs of [] \<Rightarrow> Undefined | x # _ \<Rightarrow> Str x)"

definition is_space :: "char \<Rightarrow> bool" where
  "is_space c = (c \<in> set [CHR '' '', CHR 0x09, CHR 0x0A, CHR 0x0B, CHR 0x0C, CHR 0x0D])"

text \<open>\<open>s.trim()\<close>, on ASCII white space.\<close>

definition trim :: "string \<Rightarrow> string" where
  "trim s = rev (dropWhile is_space (rev (dropWhile is_space s)))"

section \<open>The document\<close>

text \<open>
  The properties of an element that \<open>captureCameraImage\<close> reads. Only a video element
  has a media source, a ready state and a native resolution; \<open>srcObject\<close> is kept as
  the truth value the source tests.
\<close>

record media =
  offsetWidth :: int
  offsetHeight :: int
  srcObject :: bool
  readyState :: nat
  videoWidth :: nat
  videoHeight :: nat

datatype node =
    Text string
  | Element (localName: string) (attributes: "(string \<times> string) list") (media: media)
      (childNodes: "node list")

text \<open>The elements of a subtree in document order, the order \<open>querySelector\<close> searches.\<close>

fun elements :: "node \<Rightarrow> node list" where
  "elements (Text s) = []"
| "elements (Element n as m cs) = Element n as m cs # concat (map elements cs)"

fun textContent :: "node \<Rightarrow> string" where
  "textContent (Text s) = s"
| "textContent (Element n as m cs) = concat (map textContent cs)"

text \<open>\<open>e.getAttribute(a)\<close>: \<open>None\<close> is \<open>null\<close>.\<close>

fun getAttribute :: "node \<Rightarrow> string \<Rightarrow> string option" where
  "getAttribute (Text s) a = None"
| "getAttribute (Element n as m cs) a = map_of as a"

text \<open>
  The class list: the \<open>class\<close> attribute split at HTML's white space (space, tab, line
  feed, form feed, carriage return). \<open>w\<close> is the token being read, reversed.
\<close>

definition is_html_space :: "char \<Rightarrow> bool" where
  "is_html_space c = (c \<in> set [CHR '' '', CHR 0x09, CHR 0x0A, CHR 0x0C, CHR 0x0D])"

fun tokens_from :: "string \<Rightarrow> string \<Rightarrow> string list" where
  "tokens_from w [] = (if w = [] then [] else [rev w])"
| "tokens_from w (c # cs) =
     (if is_html_space c
      then (if w = [] then tokens_from [] cs else rev w # tokens_from [] cs)
      else tokens_from (c # w) cs)"

definition tokens :: "string \<Rightarrow> string list" where
  "tokens s = tokens_from [] s"

definition classList :: "node \<Rightarrow> string list" where
  "classList e = (case getAttribute e ''class'' of None \<Rightarrow> [] | Some v \<Rightarrow> tokens v)"

text \<open>The four selector shapes the source uses.\<close>

datatype selector =
    Tag string                \<comment> \<open>\<open>video\<close>\<close>
  | HasAttr string            \<comment> \<open>\<open>[data-is-muted]\<close>\<close>
  | AttrEq string string      \<comment> \<open>\<open>[data-tooltip-id="tt-m0"]\<close>\<close>
  | TagClass string string    \<comment> \<open>\<open>span.notranslate\<close>\<close>

fun matches :: "selector \<Rightarrow> node \<Rightarrow> bool" where
  "matches sel (Text s) = False"
| "matches (Tag t) (Element n as m cs) = (n = t)"
| "matches (HasAttr a) (Element n as m cs) = (map_of as a \<noteq> None)"
| "matches (AttrEq a v) (Element n as m cs) = (map_of as a = Some v)"
| "matches (TagClass t c) (Element n as m cs) =
     (n = t \<and> c \<in> set (classList (Element n as m cs)))"

definition querySelectorAll :: "selector \<Rightarrow> node \<Rightarrow> node list" where
  "querySelectorAll sel document = filter (matches sel) (elements document)"

text \<open>\<open>None\<close> is \<open>null\<close>.\<close>

definition querySelector :: "selector \<Rightarrow> node \<Rightarrow> node option" where
  "querySelector sel document = find (matches sel) (elements document)"

section \<open>Meeting detection\<close>

text \<open>
  \<open>checkMeetingStatus\<close> of the background script. The loop over \<open>allVideos\<close> only
  writes to the console and is left out.
\<close>

definition indicators :: "node \<Rightarrow> (string \<times> node option) list" where
  "indicators document =
     [(''mutedButton'', querySelector (HasAttr ''data-is-muted'') document),
      (''allocationIndex'', querySelector (HasAttr ''data-allocation-index'') document),
      (''participantId'', querySelector (HasAttr ''data-participant-id'') document),
      (''tooltip'', querySelector (AttrEq ''data-tooltip-id'' ''tt-m0'') document),
      (''meetingArea'', querySelector (HasAttr ''data-meeting-area'') document),
      (''meetingContainer'', querySelector (HasAttr ''data-meeting-container'') document),
      (''video'', querySelector (Tag ''video'') document),
      (''meetingTitle'', querySelector (HasAttr ''data-meeting-title'') document),
      (''meetingStatus'', querySelector (HasAttr ''data-meeting-status'') document)]"

definition checkMeetingStatus :: "node \<Rightarrow> bool" where
  "checkMeetingStatus document =
     list_ex (\<lambda>indicator. indicator \<noteq> None) (map snd (indicators document))"

text \<open>\<open>checkMeetingStatus\<close> of the popup (\<open>popup.js\<close>).\<close>

definition popup_checkMeetingStatus :: "node \<Rightarrow> bool" where
  "popup_checkMeetingStatus document =
     (querySelector (HasAttr ''data-is-muted'') document \<noteq> None \<or>
      querySelector (HasAttr ''data-allocation-index'') document \<noteq> None \<or>
      querySelector (HasAttr ''data-participant-id'') document \<noteq> None \<or>
      querySelector (AttrEq ''data-tooltip-id'' ''tt-m0'') document \<noteq> None)"

section \<open>Frame capture\<close>

record page =
  pathname :: string
  document :: node

text \<open>The test of \<open>videoElements.find\<close>.\<close>

definition suitable :: "node \<Rightarrow> bool" where
  "suitable video =
     (offsetWidth (media video) > 100 \<and>
      offsetHeight (media video) > 100 \<and>
      srcObject (media video) \<and>
      readyState (media video) = 4)"

definition mainVideo :: "node \<Rightarrow> node option" where
  "mainVideo doc = find suitable (querySelectorAll (Tag ''video'') doc)"

text \<open>What one chain of \<open>captureCameraImage\<close> invocations ends in.\<close>

datatype capture_result =
    Sent "(string \<times> jsval) list"   \<comment> \<open>the message handed to \<open>chrome.runtime.sendMessage\<close>\<close>
  | Caught                           \<comment> \<open>drawing or encoding threw; logged, nothing sent\<close>
  | GaveUp                           \<comment> \<open>no suitable video after the retries\<close>

definition attr_value :: "string option \<Rightarrow> jsval" where
  "attr_value a = (case a of None \<Rightarrow> Null | Some v \<Rightarrow> Str v)"

text \<open>
  The \<open>try\<close> block of \<open>captureCameraImage\<close>. The canvas is the browser's: \<open>toDataURL\<close>
  stands for \<open>drawImage\<close> followed by \<open>canvas.toDataURL('image/jpeg', 0.8)\<close> on a canvas
  of the given size, \<open>None\<close> when one of them throws.
\<close>

definition capture_frame ::
  "(node \<Rightarrow> nat \<Rightarrow> nat \<Rightarrow> string option) \<Rightarrow> page \<Rightarrow> node \<Rightarrow> capture_result" where
  "capture_frame toDataURL pg video =
     (let width = (if videoWidth (media video) \<noteq> 0 then videoWidth (media video) else 640);
          height = (if videoHeight (media video) \<noteq> 0 then videoHeight (media video) else 480)
      in case toDataURL video width height of
           None \<Rightarrow> Caught
         | Some imageData \<Rightarrow>
             (let meetingId = pop (split_char CHR ''/'' (pathname pg));
                  userName =
                    (case querySelector (TagClass ''span'' ''notranslate'') (document pg) of
                       None \<Rightarrow> Null
                     | Some nameElem \<Rightarrow> Str (trim (textContent nameElem)));
                  userId =
                    (case querySelector (HasAttr ''data-self-name'') (document pg) of
                       None \<Rightarrow> Null
                     | Some userElem \<Rightarrow> attr_value (getAttribute userElem ''data-self-name''));
                  participantId =
                    (case querySelector (HasAttr ''data-participant-id'') (document pg) of
                       None \<Rightarrow> Null
                     | Some participantElem \<Rightarrow>
                         attr_value (getAttribute participantElem ''data-participant-id''))
              in Sent [(''type'', Str ''IMAGE_CAPTURED''),
                       (''imageData'', Str imageData),
                       (''meetingId'', meetingId),
                       (''userId'', userId),
                       (''userName'', userName),
                       (''participantId'', participantId)]))"

text \<open>
  \<open>captureCameraImage(retryCount)\<close>. A retry runs one second later, on the page as it is
  then: \<open>pages k\<close> is the page that the invocation with retry count \<open>k\<close> sees. The result
  is the number of retries that were scheduled and how the chain ended.
\<close>

function captureCameraImage ::
  "(node \<Rightarrow> nat \<Rightarrow> nat \<Rightarrow> string option) \<Rightarrow> (int \<Rightarrow> page) \<Rightarrow> int \<Rightarrow> nat \<times> capture_result" where
  "captureCameraImage toDataURL pages retryCount =
     (case mainVideo (document (pages retryCount)) of
        None \<Rightarrow>
          (if retryCount < 10
           then (case captureCameraImage toDataURL pages (retryCount + 1) of
                   (n, r) \<Rightarrow> (Suc n, r))
           else (0, GaveUp))
      | Some video \<Rightarrow> (0, capture_frame toDataURL (pages retryCount) video))"
  by pat_completeness auto
termination
  by (relation "measure (\<lambda>(toDataURL, pages, retryCount). nat (10 - retryCount))") auto

declare captureCameraImage.simps [simp del]

section \<open>The capture scheduler\<close>

text \<open>
  The timers of the background script. \<open>setTimeout\<close> and \<open>setInterval\<close> draw their
  handles from one counter and share one table of active timers; a handle is a positive
  integer, so \<open>if (captureInterval)\<close> is the test against \<open>null\<close> (\<open>None\<close>).
  A timer remembers the tab id its callback closes over. Console output is left out of
  the scheduler's state.
\<close>

datatype timer =
    Timeout nat    \<comment> \<open>the start-up delay of \<open>startCameraCapture(tabId)\<close>\<close>
  | Interval nat   \<comment> \<open>the two-second capture interval for \<open>tabId\<close>\<close>

record scheduler =
  captureInterval :: "nat option"
  timers :: "(nat \<times> timer) list"
  nextHandle :: nat
  badgeText :: string
  ticks :: "nat list"   \<comment> \<open>the tabs \<open>captureCameraImage\<close> was injected into, oldest first\<close>

definition initial :: scheduler where
  "initial = \<lparr>captureInterval = None, timers = [], nextHandle = 1, badgeText = [], ticks = []\<rparr>"

definition setTimer :: "timer \<Rightarrow> scheduler \<Rightarrow> nat \<times> scheduler" where
  "setTimer t s =
     (nextHandle s,
      s\<lparr>timers := timers s @ [(nextHandle s, t)], nextHandle := Suc (nextHandle s)\<rparr>)"

definition clearInterval :: "nat \<Rightarrow> scheduler \<Rightarrow> scheduler" where
  "clearInterval h s = s\<lparr>timers := filter (\<lambda>(h', t). h' \<noteq> h) (timers s)\<rparr>"

definition startCameraCapture :: "nat \<Rightarrow> scheduler \<Rightarrow> scheduler" where
  "startCameraCapture tabId s =
     (let s1 = (case captureInterval s of
                  Some h \<Rightarrow> clearInterval h s
                | None \<Rightarrow> s)
      in snd (setTimer (Timeout tabId) s1))"

definition stopCameraCapture :: "scheduler \<Rightarrow> scheduler" where
  "stopCameraCapture s =
     (case captureInterval s of
        Some h \<Rightarrow> (clearInterval h s)\<lparr>captureInterval := None\<rparr>
      | None \<Rightarrow> s)"

text \<open>
  The event loop runs the callback of timer \<open>h\<close>. A timeout fires once and its callback
  assigns \<open>captureInterval = setInterval(...)\<close>; an interval stays and its callback injects
  \<open>captureCameraImage\<close> into its tab. A cleared handle does nothing.
\<close>

definition fire :: "nat \<Rightarrow> scheduler \<Rightarrow> scheduler" where
  "fire h s =
     (case map_of (timers s) h of
        None \<Rightarrow> s
      | Some (Timeout tabId) \<Rightarrow>
          (case setTimer (Interval tabId) (clearInterval h s) of
             (h', s') \<Rightarrow> s'\<lparr>captureInterval := Some h'\<rparr>)
      | Some (Interval tabId) \<Rightarrow> s\<lparr>ticks := ticks s @ [tabId]\<rparr>)"

text \<open>
  The callback of \<open>executeScript(checkMeetingStatus)\<close>, shared by the two tab listeners.
  \<open>doc\<close> is the tab's document, \<open>None\<close> when the injection gave no result.
\<close>

definition on_status :: "nat \<Rightarrow> node option \<Rightarrow> scheduler \<Rightarrow> scheduler" where
  "on_status tabId doc s =
     (if (case doc of None \<Rightarrow> False | Some d \<Rightarrow> checkMeetingStatus d)
      then startCameraCapture tabId (s\<lparr>badgeText := ''ON''\<rparr>)
      else stopCameraCapture (s\<lparr>badgeText := []\<rparr>))"

definition is_meet :: "string option \<Rightarrow> bool" where
  "is_meet u = (case u of None \<Rightarrow> False | Some v \<Rightarrow> v \<noteq> [] \<and> str_includes v ''meet.google.com'')"

datatype event =
    TabUpdated nat "string option" "string option" "node option"
      \<comment> \<open>tab id, \<open>changeInfo.status\<close>, \<open>tab.url\<close>, the tab's document\<close>
  | TabRemoved nat
  | TabActivated nat "string option" "node option"
  | TimerFired nat

fun step :: "scheduler \<Rightarrow> event \<Rightarrow> scheduler" where
  "step s (TabUpdated tabId status u doc) =
     (if status = Some ''complete'' \<and> is_meet u then on_status tabId doc s else s)"
| "step s (TabRemoved tabId) = stopCameraCapture (s\<lparr>badgeText := []\<rparr>)"
| "step s (TabActivated tabId u doc) = (if is_meet u then on_status tabId doc s else s)"
| "step s (TimerFired h) = fire h s"

definition run :: "event list \<Rightarrow> scheduler \<Rightarrow> scheduler" where
  "run evs s = foldl step s evs"

text \<open>The handles of the capture intervals that are running for a tab.\<close>

definition active_intervals :: "nat \<Rightarrow> scheduler \<Rightarrow> nat list" where
  "active_intervals tabId s = map fst (filter (\<lambda>(h, t). t = Interval tabId) (timers s))"

section \<open>Device identifier and upload\<close>

datatype level = Log | Err   \<comment> \<open>\<open>console.log\<close>, \<open>console.error\<close>\<close>

record request =
  url :: string
  http_method :: string
  headers :: "(string \<times> string) list"
  mode :: string
  credentials :: string
  body :: "(string \<times> jsval) list"

text \<open>
  How a \<open>fetch\<close> ends: the promise rejects (no network), or a response arrives with a
  status and a body, \<open>None\<close> when the body is not JSON and \<open>response.json()\<close> rejects.
\<close>

datatype fetch_outcome =
    Rejected js_error
  | Response nat "jsval option"

text \<open>\<open>response.ok\<close>, as the Fetch standard defines it.\<close>

definition ok :: "nat \<Rightarrow> bool" where
  "ok status = (200 \<le> status \<and> status \<le> 299)"

text \<open>What the browser supplies to one run of the message listener.\<close>

record env =
  randomUUID :: string         \<comment> \<open>\<open>crypto.randomUUID()\<close>\<close>
  now :: string                \<comment> \<open>\<open>new Date().toISOString()\<close>\<close>
  extension_url :: string      \<comment> \<open>\<open>chrome.runtime.getURL('')\<close>\<close>
  fetched :: fetch_outcome     \<comment> \<open>how the \<open>fetch\<close> of this run ends\<close>

record background =
  storage :: "string \<rightharpoonup> jsval"              \<comment> \<open>\<open>chrome.storage.local\<close>\<close>
  console :: "(level \<times> string) list"
  requests :: "request list"                    \<comment> \<open>the calls of \<open>fetch\<close>\<close>
  responses :: "(string \<times> jsval) list list"   \<comment> \<open>the calls of \<open>sendResponse\<close>\<close>
  unhandled :: "js_error list"                  \<comment> \<open>rejections that no handler caught\<close>

definition BACKEND_URL :: string where
  "BACKEND_URL = ''https://student-attention.onrender.com/api/images''"

definition write_console :: "level \<Rightarrow> string \<Rightarrow> background \<Rightarrow> background" where
  "write_console l m st = st\<lparr>console := console st @ [(l, m)]\<rparr>"

text \<open>
  \<open>getDeviceId(callback)\<close>: the callback runs on the state that the storage call before
  it left.
\<close>

definition getDeviceId :: "string \<Rightarrow> (jsval \<Rightarrow> background \<Rightarrow> 'a) \<Rightarrow> background \<Rightarrow> 'a" where
  "getDeviceId uuid callback st =
     (let deviceId = (case storage st ''deviceId'' of None \<Rightarrow> Undefined | Some v \<Rightarrow> v)
      in if truthy deviceId then callback deviceId st
         else (let newId = Str uuid
               in callback newId (st\<lparr>storage := (storage st)(''deviceId'' \<mapsto> newId)\<rparr>)))"

definition upload_request ::
  "env \<Rightarrow> jsval \<Rightarrow> jsval \<Rightarrow> jsval \<Rightarrow> jsval \<Rightarrow> jsval \<Rightarrow> jsval \<Rightarrow> request" where
  "upload_request e imageData meetingId userId participantId userName deviceId =
     \<lparr>url = BACKEND_URL,
      http_method = ''POST'',
      headers = [(''Content-Type'', ''application/json''),
                 (''Accept'', ''application/json''),
                 (''Origin'', extension_url e),
                 (''Access-Control-Allow-Origin'', ''*'')],
      mode = ''cors'',
      credentials = ''omit'',
      body = stringify_members
               [(''imageData'', imageData),
                (''meetingId'', meetingId),
                (''timestamp'', Str (now e)),
                (''userId'', userId),
                (''participantId'', participantId),
                (''userName'', userName),
                (''deviceId'', deviceId)]\<rparr>"

text \<open>
  \<open>sendImageToBackend\<close>: \<open>Inl\<close> is the rejected promise, \<open>Inr\<close> the resolved one. The
  \<open>catch\<close> block logs and throws the error again.
\<close>

definition sendImageToBackend ::
  "env \<Rightarrow> jsval \<Rightarrow> jsval \<Rightarrow> jsval \<Rightarrow> jsval \<Rightarrow> jsval \<Rightarrow> jsval \<Rightarrow> background
     \<Rightarrow> (js_error + jsval) \<times> background" where
  "sendImageToBackend e imageData meetingId userId participantId userName deviceId st =
     (let st1 = write_console Log ''Sending image to backend for meeting:'' st;
          st2 = st1\<lparr>requests := requests st1 @
                  [upload_request e imageData meetingId userId participantId userName deviceId]\<rparr>;
          tried =
            (case fetched e of
               Rejected err \<Rightarrow> Inl err
             | Response status parsed \<Rightarrow>
                 if \<not> ok status then Inl (Error (''HTTP error! status: '' @ show_nat status))
                 else (case parsed of
                         None \<Rightarrow> Inl (SyntaxError ''Unexpected token'')
                       | Some result \<Rightarrow> Inr result))
      in case tried of
           Inr result \<Rightarrow> (Inr result, write_console Log ''Image sent successfully:'' st2)
         | Inl err \<Rightarrow> (Inl err, write_console Err ''Error sending image to backend:'' st2))"

text \<open>\<open>promise.then(f)\<close> and \<open>promise.catch(g)\<close> on a settled promise and the state.\<close>

definition then_do ::
  "(js_error + 'a) \<times> background \<Rightarrow> ('a \<Rightarrow> background \<Rightarrow> (js_error + 'b) \<times> background)
     \<Rightarrow> (js_error + 'b) \<times> background" where
  "then_do p f = (case p of (Inr v, st) \<Rightarrow> f v st | (Inl err, st) \<Rightarrow> (Inl err, st))"

definition catch_do ::
  "(js_error + 'a) \<times> background \<Rightarrow> (js_error \<Rightarrow> background \<Rightarrow> (js_error + 'a) \<times> background)
     \<Rightarrow> (js_error + 'a) \<times> background" where
  "catch_do p g = (case p of (Inl err, st) \<Rightarrow> g err st | (Inr v, st) \<Rightarrow> (Inr v, st))"

definition sendResponse :: "(string \<times> jsval) list \<Rightarrow> background \<Rightarrow> background" where
  "sendResponse r st = st\<lparr>responses := responses st @ [r]\<rparr>"

text \<open>A promise chain that ends rejected is an unhandled rejection.\<close>

definition settle :: "(js_error + unit) \<times> background \<Rightarrow> background" where
  "settle p = (case p of (Inr v, st) \<Rightarrow> st | (Inl err, st) \<Rightarrow> st\<lparr>unhandled := unhandled st @ [err]\<rparr>)"

text \<open>
  The \<open>chrome.runtime.onMessage\<close> listener: its return value (\<open>true\<close> keeps the reply
  channel open, otherwise \<open>undefined\<close>) and the state once its callbacks have run.
\<close>

definition on_message :: "env \<Rightarrow> (string \<times> jsval) list \<Rightarrow> background \<Rightarrow> jsval \<times> background" where
  "on_message e message st =
     (if field message ''type'' = Str ''IMAGE_CAPTURED''
      then (Bool True,
            getDeviceId (randomUUID e)
              (\<lambda>deviceId st1.
                 settle
                   (catch_do
                      (then_do
                         (sendImageToBackend e
                            (field message ''imageData'')
                            (field message ''meetingId'')
                            (field message ''userId'')
                            (field message ''participantId'')
                            (field message ''userName'')
                            deviceId st1)
                         (\<lambda>result st2.
                            (Inr (),
                             sendResponse [(''success'', Bool True)]
                               (write_console Log ''Image sent successfully from background:'' st2))))
                      (\<lambda>err st2.
                         (Inr (),
                          sendResponse [(''success'', Bool False), (''error'', Str (message_of err))]
                            (write_console Err ''Failed to send image from background:'' st2)))))
              (write_console Log ''Received image from content script for meeting:'' st))
      else (Undefined, st))"

section \<open>The dashboard\<close>







section \<open>Marker sets\<close>

text \<open>
  A marker is present in a document when some element of it matches the marker's
  selector.
\<close>

definition marker_present :: "selector list \<Rightarrow> node \<Rightarrow> bool" where
  "marker_present sels doc = list_ex (\<lambda>sel. list_ex (matches sel) (elements doc)) sels"

text \<open>
  The five markers of the specification's meeting detector: the mute-state,
  participant-allocation and participant-id attributes, the tooltip id, a video element.
\<close>

definition spec_markers :: "selector list" where
  "spec_markers =
     [HasAttr ''data-is-muted'',
      HasAttr ''data-allocation-index'',
      HasAttr ''data-participant-id'',
      AttrEq ''data-tooltip-id'' ''tt-m0'',
      Tag ''video'']"

text \<open>The four further attributes the background script also looks for.\<close>

definition extra_markers :: "selector list" where
  "extra_markers =
     [HasAttr ''data-meeting-area'',
      HasAttr ''data-meeting-container'',
      HasAttr ''data-meeting-title'',
      HasAttr ''data-meeting-status'']"

text \<open>The four attribute and tooltip markers, without the video element.\<close>

definition attribute_markers :: "selector list" where
  "attribute_markers =
     [HasAttr ''data-is-muted'',
      HasAttr ''data-allocation-index'',
      HasAttr ''data-participant-id'',
      AttrEq ''data-tooltip-id'' ''tt-m0'']"

text \<open>An element without layout or media, for concrete documents.\<close>

definition no_media :: media where
  "no_media = \<lparr>offsetWidth = 0, offsetHeight = 0, srcObject = False, readyState = 0,
               videoWidth = 0, videoHeight = 0\<rparr>"

section \<open>Successive reads of the device identifier\<close>

text \<open>
  Calls of \<open>getDeviceId\<close> one after the other, each started when the callback of the one
  before has run, nothing else writing to the storage in between. The list gives, per
  call, what \<open>crypto.randomUUID()\<close> would return to it; the result gives what each
  callback received and the state after the last call.
\<close>

fun successive_reads :: "string list \<Rightarrow> background \<Rightarrow> jsval list \<times> background" where
  "successive_reads [] st = ([], st)"
| "successive_reads (uuid # uuids) st =
     getDeviceId uuid
       (\<lambda>deviceId st'. case successive_reads uuids st' of (ids, st'') \<Rightarrow> (deviceId # ids, st''))
       st"

section \<open>Concrete inputs\<close>

text \<open>A meeting page with one live video, a participant entry and a name.\<close>

definition meet_video :: node where
  "meet_video = Element ''video'' []
     \<lparr>offsetWidth = 640, offsetHeight = 360, srcObject = True, readyState = 4,
      videoWidth = 1280, videoHeight = 720\<rparr> []"

definition meet_page :: page where
  "meet_page =
     \<lparr>pathname = ''/abc-defg-hij'',
      document = Element ''body'' [] no_media
        [Element ''div'' [(''data-participant-id'', ''p1''), (''data-self-name'', ''ada'')] no_media
           [Element ''span'' [(''class'', ''name notranslate'')] no_media [Text '' Ada '']],
         meet_video]\<rparr>"

definition fresh :: background where
  "fresh = \<lparr>storage = Map.empty, console = [], requests = [], responses = [], unhandled = []\<rparr>"

text \<open>A run of the listener in which the server answers 500, and one in which it accepts.\<close>

definition server_error :: env where
  "server_error =
     \<lparr>randomUUID = ''123e4567-e89b-12d3-a456-426614174000'',
      now = ''2024-01-01T00:00:00.000Z'',
      extension_url = ''chrome-extension://abcdef/'',
      fetched = Response 500 None\<rparr>"

definition accepted :: env where
  "accepted =
     \<lparr>randomUUID = ''123e4567-e89b-12d3-a456-426614174000'',
      now = ''2024-01-01T00:00:00.000Z'',
      extension_url = ''chrome-extension://abcdef/'',
      fetched = Response 200 (Some (Obj [(''success'', Bool True)]))\<rparr>"

definition captured :: "(string \<times> jsval) list" where
  "captured =
     [(''type'', Str ''IMAGE_CAPTURED''),
      (''imageData'', Str ''data:image/jpeg;base64,AAAA''),
      (''meetingId'', Str ''abc-defg-hij''),
      (''userId'', Str ''ada''),
      (''userName'', Str ''Ada''),
      (''participantId'', Str ''p1'')]"

section \<open>Meeting detection: what the detectors answer\<close>

lemma querySelector_present:
  "(querySelector sel doc \<noteq> None) = list_ex (matches sel) (elements doc)"
  by (auto simp: querySelector_def find_None_iff list_ex_iff)

lemma popup_markers:
  "popup_checkMeetingStatus doc = marker_present attribute_markers doc"
  unfolding popup_checkMeetingStatus_def marker_present_def attribute_markers_def
  by (simp add: querySelector_present del: not_None_eq)

lemma video_only_disagree:
  assumes "marker_present [Tag ''video''] doc" and "\<not> marker_present attribute_markers doc"
  shows "checkMeetingStatus doc \<and> \<not> popup_checkMeetingStatus doc"
proof -
  have "checkMeetingStatus doc"
    using assms(1)
    unfolding checkMeetingStatus_def indicators_def marker_present_def
    by (simp add: querySelector_present del: not_None_eq)
  moreover have "\<not> popup_checkMeetingStatus doc"
    using assms(2) by (simp add: popup_markers)
  ultimately show ?thesis by simp
qed

lemma video_doc_markers:
  "marker_present [Tag ''video''] (Element ''video'' [] no_media [])
   \<and> \<not> marker_present attribute_markers (Element ''video'' [] no_media [])"
  by (simp add: marker_present_def attribute_markers_def)

text \<open>
  C2, as the specification words it, fails: a document whose only element carries the
  attribute \<open>data-meeting-area\<close> has none of the five markers, and the background
  detector answers true.
\<close>

theorem checkMeetingStatus_five_markers_counterexample:
  "checkMeetingStatus (Element ''div'' [(''data-meeting-area'', [])] no_media [])
   \<and> \<not> marker_present spec_markers (Element ''div'' [(''data-meeting-area'', [])] no_media [])"
  by (simp add: checkMeetingStatus_def indicators_def marker_present_def spec_markers_def
      querySelector_def)

text \<open>
  C2, amended: the background script's meeting detector returns true if and only if at
  least one of nine markers is present in the document: the mute-state,
  participant-allocation and participant-id attributes, the tooltip id \<open>tt-m0\<close>, any
  video element (live or not), or one of the attributes \<open>data-meeting-area\<close>,
  \<open>data-meeting-container\<close>, \<open>data-meeting-title\<close> and \<open>data-meeting-status\<close>.
\<close>

theorem checkMeetingStatus_nine_markers:
  "checkMeetingStatus doc = marker_present (spec_markers @ extra_markers) doc"
  unfolding checkMeetingStatus_def indicators_def marker_present_def spec_markers_def
    extra_markers_def
  by (simp add: querySelector_present del: not_None_eq) blast

text \<open>
  C9: the detector of the background script and the detector of the popup disagree on
  every document that holds a video element and none of the four attribute and tooltip
  markers: the background script answers true, the popup false. Such a document exists,
  so the two functions are not equal.
\<close>

theorem detectors_disagree:
  "(\<forall>doc. marker_present [Tag ''video''] doc \<and> \<not> marker_present attribute_markers doc
      \<longrightarrow> checkMeetingStatus doc \<and> \<not> popup_checkMeetingStatus doc)
   \<and> (\<exists>doc. checkMeetingStatus doc \<and> \<not> popup_checkMeetingStatus doc)
   \<and> checkMeetingStatus \<noteq> popup_checkMeetingStatus"
proof (intro conjI allI impI)
  fix doc
  assume "marker_present [Tag ''video''] doc \<and> \<not> marker_present attribute_markers doc"
  then show "checkMeetingStatus doc" and "\<not> popup_checkMeetingStatus doc"
    using video_only_disagree by blast+
next
  have d: "checkMeetingStatus (Element ''video'' [] no_media [])
      \<and> \<not> popup_checkMeetingStatus (Element ''video'' [] no_media [])"
    using video_only_disagree video_doc_markers by blast
  then show "\<exists>doc. checkMeetingStatus doc \<and> \<not> popup_checkMeetingStatus doc" by blast
  from d show "checkMeetingStatus \<noteq> popup_checkMeetingStatus" by metis
qed

theorem detectors_disagree_witness:
  "marker_present [Tag ''video''] (Element ''video'' [] no_media [])
   \<and> \<not> marker_present attribute_markers (Element ''video'' [] no_media [])
   \<and> checkMeetingStatus (Element ''video'' [] no_media [])
   \<and> \<not> popup_checkMeetingStatus (Element ''video'' [] no_media [])"
proof -
  have h: "marker_present [Tag ''video''] (Element ''video'' [] no_media [])
      \<and> \<not> marker_present attribute_markers (Element ''video'' [] no_media [])"
    by (simp add: marker_present_def attribute_markers_def)
  from detectors_disagree have
    "marker_present [Tag ''video''] (Element ''video'' [] no_media [])
       \<and> \<not> marker_present attribute_markers (Element ''video'' [] no_media [])
     \<longrightarrow> checkMeetingStatus (Element ''video'' [] no_media [])
       \<and> \<not> popup_checkMeetingStatus (Element ''video'' [] no_media [])"
    by blast
  with h show ?thesis by blast
qed

section \<open>Frame capture: selection and retries\<close>

lemma mainVideo_suitable: "mainVideo doc = Some video \<Longrightarrow> suitable video"
  by (auto simp: mainVideo_def find_Some_iff)

lemma capture_independent:
  assumes "\<not> suitable video"
    and "\<forall>n w h. n \<noteq> video \<longrightarrow> toDataURL' n w h = toDataURL n w h"
  shows "captureCameraImage toDataURL' pages retryCount
    = captureCameraImage toDataURL pages retryCount"
  using assms
proof (induction toDataURL pages retryCount rule: captureCameraImage.induct)
  case (1 toDataURL pages retryCount)
  show ?case
  proof (cases "mainVideo (document (pages retryCount))")
    case (Some v)
    then have "suitable v" by (rule mainVideo_suitable)
    with "1.prems" have "v \<noteq> video" by auto
    with "1.prems" have "capture_frame toDataURL' (pages retryCount) v
        = capture_frame toDataURL (pages retryCount) v"
      by (simp add: capture_frame_def)
    with Some show ?thesis
      by (subst captureCameraImage.simps, subst (2) captureCameraImage.simps) simp
  next
    case None
    show ?thesis
    proof (cases "retryCount < 10")
      case True
      from "1.IH" [OF None True "1.prems"] None True show ?thesis
        by (subst captureCameraImage.simps, subst (2) captureCameraImage.simps) simp
    next
      case False
      with None show ?thesis
        by (subst captureCameraImage.simps, subst (2) captureCameraImage.simps) simp
    qed
  qed
qed

lemma retries_bounded:
  "fst (captureCameraImage toDataURL pages retryCount) \<le> nat (10 - retryCount)"
proof (induction toDataURL pages retryCount rule: captureCameraImage.induct)
  case (1 toDataURL pages retryCount)
  show ?case
  proof (cases "mainVideo (document (pages retryCount))")
    case (Some video)
    then show ?thesis by (subst captureCameraImage.simps) simp
  next
    case None
    show ?thesis
    proof (cases "retryCount < 10")
      case True
      from "1.IH" [OF None True]
      have "fst (captureCameraImage toDataURL pages (retryCount + 1))
          \<le> nat (10 - (retryCount + 1))" .
      with None True show ?thesis
        by (subst captureCameraImage.simps) (auto split: prod.splits)
    next
      case False
      with None show ?thesis by (subst captureCameraImage.simps) simp
    qed
  qed
qed

lemma gives_up:
  "(\<forall>j. retryCount \<le> j \<longrightarrow> mainVideo (document (pages j)) = None)
   \<Longrightarrow> captureCameraImage toDataURL pages retryCount = (nat (10 - retryCount), GaveUp)"
proof (induction toDataURL pages retryCount rule: captureCameraImage.induct)
  case (1 toDataURL pages retryCount)
  from "1.prems" have None: "mainVideo (document (pages retryCount)) = None" by simp
  show ?case
  proof (cases "retryCount < 10")
    case True
    from "1.prems" have "\<forall>j. retryCount + 1 \<le> j \<longrightarrow> mainVideo (document (pages j)) = None"
      by simp
    from "1.IH" [OF None True this]
    have "captureCameraImage toDataURL pages (retryCount + 1)
        = (nat (10 - (retryCount + 1)), GaveUp)" .
    with None True show ?thesis
      by (subst captureCameraImage.simps) (simp add: nat_diff_distrib Suc_nat_eq_nat_zadd1)
  next
    case False
    with None show ?thesis by (subst captureCameraImage.simps) simp
  qed
qed

text \<open>
  C4: a video element whose rendered width and height are both at most 100 is never the
  video that \<open>captureCameraImage\<close> selects, whatever its ready state and media source:
  \<open>find\<close> never returns it, and what drawing it would give has no influence on the
  outcome of the capture.
\<close>

theorem small_video_never_selected:
  assumes "offsetWidth (media video) \<le> 100" and "offsetHeight (media video) \<le> 100"
  shows "mainVideo doc \<noteq> Some video
    \<and> (\<forall>toDataURL toDataURL' pages retryCount.
         (\<forall>n w h. n \<noteq> video \<longrightarrow> toDataURL' n w h = toDataURL n w h)
         \<longrightarrow> captureCameraImage toDataURL' pages retryCount
             = captureCameraImage toDataURL pages retryCount)"
proof -
  from assms have ns: "\<not> suitable video" by (simp add: suitable_def)
  then have "mainVideo doc \<noteq> Some video" using mainVideo_suitable by blast
  moreover from ns have "\<forall>toDataURL toDataURL' pages retryCount.
         (\<forall>n w h. n \<noteq> video \<longrightarrow> toDataURL' n w h = toDataURL n w h)
         \<longrightarrow> captureCameraImage toDataURL' pages retryCount
             = captureCameraImage toDataURL pages retryCount"
    using capture_independent by blast
  ultimately show ?thesis by blast
qed

theorem small_video_never_selected_witness:
  "offsetWidth (media (Element ''video'' []
       \<lparr>offsetWidth = 100, offsetHeight = 100, srcObject = True, readyState = 4,
        videoWidth = 640, videoHeight = 480\<rparr> [])) \<le> 100
   \<and> mainVideo (Element ''video'' []
       \<lparr>offsetWidth = 100, offsetHeight = 100, srcObject = True, readyState = 4,
        videoWidth = 640, videoHeight = 480\<rparr> [])
     \<noteq> Some (Element ''video'' []
       \<lparr>offsetWidth = 100, offsetHeight = 100, srcObject = True, readyState = 4,
        videoWidth = 640, videoHeight = 480\<rparr> [])"
  using small_video_never_selected [of "Element ''video'' []
       \<lparr>offsetWidth = 100, offsetHeight = 100, srcObject = True, readyState = 4,
        videoWidth = 640, videoHeight = 480\<rparr> []" "Element ''video'' []
       \<lparr>offsetWidth = 100, offsetHeight = 100, srcObject = True, readyState = 4,
        videoWidth = 640, videoHeight = 480\<rparr> []"]
  by simp

text \<open>
  C5: \<open>captureCameraImage\<close> always returns, and schedules at most \<open>10 - retryCount\<close>
  retries (ten from the initial call with retry count 0): the recursion is total, with
  the distance of the retry count to 10 as its measure. When no invocation finds a
  suitable video, exactly that many retries are made and the chain ends by giving up,
  with no message sent.
\<close>

theorem capture_retries_bounded:
  "fst (captureCameraImage toDataURL pages retryCount) \<le> nat (10 - retryCount)
   \<and> ((\<forall>j. retryCount \<le> j \<longrightarrow> mainVideo (document (pages j)) = None)
        \<longrightarrow> captureCameraImage toDataURL pages retryCount = (nat (10 - retryCount), GaveUp))"
  using retries_bounded gives_up by blast

theorem capture_retries_bounded_witness:
  "captureCameraImage (\<lambda>video w h. None)
     (\<lambda>k. \<lparr>pathname = ''/abc-defg-hij'', document = Element ''div'' [] no_media []\<rparr>) 0
   = (10, GaveUp)"
proof -
  have "\<forall>j. (0::int) \<le> j \<longrightarrow>
      mainVideo (document ((\<lambda>k. \<lparr>pathname = ''/abc-defg-hij'',
        document = Element ''div'' [] no_media []\<rparr>) j)) = None"
    by (simp add: mainVideo_def querySelectorAll_def)
  with capture_retries_bounded [of "\<lambda>video w h. None"
      "\<lambda>k. \<lparr>pathname = ''/abc-defg-hij'', document = Element ''div'' [] no_media []\<rparr>" 0]
  show ?thesis by simp
qed

section \<open>The capture scheduler: stopping and starting\<close>

lemma is_meet_url: "is_meet (Some ''https://meet.google.com/abc-defg-hij'')"
  by (simp add: is_meet_def)

lemma stop_idem: "stopCameraCapture (stopCameraCapture s) = stopCameraCapture s"
  by (simp add: stopCameraCapture_def clearInterval_def split: option.splits)

lemma stop_null: "captureInterval (stopCameraCapture s) = None"
  by (simp add: stopCameraCapture_def clearInterval_def split: option.splits)

lemma stop_clears:
  "captureInterval s = Some h \<Longrightarrow> h \<notin> fst ` set (timers (stopCameraCapture s))"
  by (auto simp: stopCameraCapture_def clearInterval_def)

text \<open>
  C10: the tab-removal listener stops the capture whatever tab was closed: afterwards
  \<open>captureInterval\<close> is \<open>null\<close> and the interval it held is no longer active.
  \<open>stopCameraCapture\<close> is idempotent.
\<close>

theorem tab_removed_stops_capture:
  "captureInterval (step s (TabRemoved tabId)) = None
   \<and> (\<forall>h. captureInterval s = Some h \<longrightarrow> h \<notin> fst ` set (timers (step s (TabRemoved tabId))))
   \<and> stopCameraCapture (stopCameraCapture s) = stopCameraCapture s"
proof (intro conjI allI impI)
  show "captureInterval (step s (TabRemoved tabId)) = None" by (simp add: stop_null)
  show "stopCameraCapture (stopCameraCapture s) = stopCameraCapture s" by (rule stop_idem)
next
  fix h assume "captureInterval s = Some h"
  then have "captureInterval (s\<lparr>badgeText := []\<rparr>) = Some h" by simp
  from stop_clears [OF this] show "h \<notin> fst ` set (timers (step s (TabRemoved tabId)))" by simp
qed

theorem tab_removed_stops_capture_witness:
  "captureInterval (step \<lparr>captureInterval = Some 2, timers = [(2, Interval 1)], nextHandle = 3,
       badgeText = ''ON'', ticks = []\<rparr> (TabRemoved 7)) = None
   \<and> 2 \<notin> fst ` set (timers (step \<lparr>captureInterval = Some 2, timers = [(2, Interval 1)],
       nextHandle = 3, badgeText = ''ON'', ticks = []\<rparr> (TabRemoved 7)))"
  using tab_removed_stops_capture [of "\<lparr>captureInterval = Some 2, timers = [(2, Interval 1)],
       nextHandle = 3, badgeText = ''ON'', ticks = []\<rparr>" 7]
  by simp

text \<open>
  Two starts that are further apart than the start-up delay leave one interval: the
  second call clears the interval of the first.
\<close>

lemma spaced_starts_one_interval:
  "active_intervals 1 (fire 3 (startCameraCapture 1 (fire 1 (startCameraCapture 1 initial))))
     = [4]"
  by (simp add: fire_def startCameraCapture_def initial_def setTimer_def clearInterval_def
      active_intervals_def)

text \<open>
  C1 fails on the code. \<open>startCameraCapture\<close> clears the interval that \<open>captureInterval\<close>
  holds, but not the start-up timeout of an earlier call, and \<open>captureInterval\<close> is only
  assigned when that timeout fires. Two calls for tab 1 within the start-up delay (here
  also as a tab activation followed by a completed page load) leave two timeouts; when
  both have fired, the intervals 3 and 4 run for tab 1, every period injects the capture
  twice, and \<open>stopCameraCapture\<close> only reaches interval 4.
\<close>

theorem double_start_two_intervals:
  "active_intervals 1 (fire 2 (fire 1 (startCameraCapture 1 (startCameraCapture 1 initial))))
     = [3, 4]
   \<and> ticks (fire 4 (fire 3 (fire 2 (fire 1
        (startCameraCapture 1 (startCameraCapture 1 initial)))))) = [1, 1]
   \<and> active_intervals 1 (stopCameraCapture (fire 2 (fire 1
        (startCameraCapture 1 (startCameraCapture 1 initial))))) = [3]
   \<and> active_intervals 1
        (run [TabActivated 1 (Some ''https://meet.google.com/abc-defg-hij'')
                (Some (Element ''video'' [] no_media [])),
              TabUpdated 1 (Some ''complete'') (Some ''https://meet.google.com/abc-defg-hij'')
                (Some (Element ''video'' [] no_media [])),
              TimerFired 1, TimerFired 2] initial)
     = [3, 4]"
  by (simp add: run_def is_meet_url on_status_def checkMeetingStatus_def indicators_def
      querySelector_def fire_def startCameraCapture_def initial_def setTimer_def
      clearInterval_def active_intervals_def stopCameraCapture_def)

section \<open>Device identifier\<close>

lemma read_fixed:
  assumes "storage st ''deviceId'' = Some d" and "truthy d"
  shows "successive_reads uuids st = (replicate (length uuids) d, st)"
  using assms by (induction uuids) (simp_all add: getDeviceId_def)

lemma first_read:
  assumes "uuid \<noteq> []" and "getDeviceId uuid Pair st = (d, st1)"
  shows "storage st1 ''deviceId'' = Some d \<and> truthy d"
  using assms by (auto simp: getDeviceId_def Let_def split: if_splits option.splits)

text \<open>
  C6: \<open>crypto.randomUUID()\<close> returns a non-empty string. On first use (nothing stored)
  \<open>getDeviceId\<close> runs its callback with the new identifier on a state whose storage
  already holds it. Once a call has delivered an identifier \<open>d\<close>, every later call
  delivers \<open>d\<close> again and leaves the state as it was, as long as nothing else writes to
  the storage.
\<close>

theorem device_id_stable:
  assumes "uuid \<noteq> []"
  shows "(storage st ''deviceId'' = None \<longrightarrow>
            getDeviceId uuid callback st
              = callback (Str uuid) (st\<lparr>storage := (storage st)(''deviceId'' \<mapsto> Str uuid)\<rparr>))
    \<and> (getDeviceId uuid Pair st = (d, st1) \<longrightarrow>
          successive_reads uuids st1 = (replicate (length uuids) d, st1))"
proof (intro conjI impI)
  assume "storage st ''deviceId'' = None"
  then show "getDeviceId uuid callback st
      = callback (Str uuid) (st\<lparr>storage := (storage st)(''deviceId'' \<mapsto> Str uuid)\<rparr>)"
    by (simp add: getDeviceId_def Let_def)
next
  assume "getDeviceId uuid Pair st = (d, st1)"
  from first_read [OF assms this]
  show "successive_reads uuids st1 = (replicate (length uuids) d, st1)"
    using read_fixed by blast
qed

theorem device_id_stable_witness:
  "getDeviceId ''123e4567-e89b-12d3-a456-426614174000'' Pair fresh
    = (Str ''123e4567-e89b-12d3-a456-426614174000'',
       fresh\<lparr>storage := [''deviceId'' \<mapsto> Str ''123e4567-e89b-12d3-a456-426614174000'']\<rparr>)
   \<and> fst (successive_reads [''aaaa'', ''bbbb'', []]
       (fresh\<lparr>storage := [''deviceId'' \<mapsto> Str ''123e4567-e89b-12d3-a456-426614174000'']\<rparr>))
     = [Str ''123e4567-e89b-12d3-a456-426614174000'',
        Str ''123e4567-e89b-12d3-a456-426614174000'',
        Str ''123e4567-e89b-12d3-a456-426614174000'']"
proof -
  have n: "''123e4567-e89b-12d3-a456-426614174000'' \<noteq> []" by simp
  have g: "getDeviceId ''123e4567-e89b-12d3-a456-426614174000'' Pair fresh
    = (Str ''123e4567-e89b-12d3-a456-426614174000'',
       fresh\<lparr>storage := [''deviceId'' \<mapsto> Str ''123e4567-e89b-12d3-a456-426614174000'']\<rparr>)"
    by (simp add: getDeviceId_def Let_def fresh_def)
  note t = device_id_stable [OF n, of fresh Pair
      "Str ''123e4567-e89b-12d3-a456-426614174000''"
      "fresh\<lparr>storage := [''deviceId'' \<mapsto> Str ''123e4567-e89b-12d3-a456-426614174000'']\<rparr>"
      "[''aaaa'', ''bbbb'', []]"]
  from t [THEN conjunct2, THEN mp, OF g]
  have "fst (successive_reads [''aaaa'', ''bbbb'', []]
       (fresh\<lparr>storage := [''deviceId'' \<mapsto> Str ''123e4567-e89b-12d3-a456-426614174000'']\<rparr>))
     = replicate (length [''aaaa'', ''bbbb'', []])
         (Str ''123e4567-e89b-12d3-a456-426614174000'')"
    by simp
  then have "fst (successive_reads [''aaaa'', ''bbbb'', []]
       (fresh\<lparr>storage := [''deviceId'' \<mapsto> Str ''123e4567-e89b-12d3-a456-426614174000'']\<rparr>))
     = [Str ''123e4567-e89b-12d3-a456-426614174000'',
        Str ''123e4567-e89b-12d3-a456-426614174000'',
        Str ''123e4567-e89b-12d3-a456-426614174000'']"
    by (simp add: numeral_3_eq_3)
  with g show ?thesis by (intro conjI)
qed

section \<open>Upload\<close>

lemma send_request:
  "requests (snd (sendImageToBackend e i m u p n d st))
     = requests st @ [upload_request e i m u p n d]"
  by (simp add: sendImageToBackend_def write_console_def Let_def split: sum.splits)

lemma send_success:
  "(fst (sendImageToBackend e i m u p n d st) = Inr result)
     = (\<exists>status. fetched e = Response status (Some result) \<and> 200 \<le> status \<and> status \<le> 299)"
  by (auto simp: sendImageToBackend_def Let_def ok_def
      split: fetch_outcome.splits option.splits sum.splits if_splits)

lemma settle_requests: "requests (settle p) = requests (snd p)"
  by (cases p; cases "fst p") (auto simp: settle_def)

lemma catch_requests:
  assumes "\<And>err s. requests (snd (g err s)) = requests s"
  shows "requests (snd (catch_do p g)) = requests (snd p)"
  by (cases p; cases "fst p") (auto simp: catch_do_def assms)

lemma then_requests:
  assumes "\<And>v s. requests (snd (f v s)) = requests s"
  shows "requests (snd (then_do p f)) = requests (snd p)"
  by (cases p; cases "fst p") (auto simp: then_do_def assms)

lemma truthy_defined: "truthy v \<Longrightarrow> v \<noteq> Undefined"
  by auto

text \<open>The identifier that \<open>getDeviceId\<close> hands to its callback.\<close>

lemma on_message_request:
  assumes "field message ''type'' = Str ''IMAGE_CAPTURED''"
  shows "requests (snd (on_message e message st)) = requests st @
      [upload_request e (field message ''imageData'') (field message ''meetingId'')
         (field message ''userId'') (field message ''participantId'')
         (field message ''userName'')
         (if truthy (case storage st ''deviceId'' of None \<Rightarrow> Undefined | Some v \<Rightarrow> v)
          then (case storage st ''deviceId'' of None \<Rightarrow> Undefined | Some v \<Rightarrow> v)
          else Str (randomUUID e))]"
  using assms
  by (simp add: on_message_def getDeviceId_def Let_def settle_requests catch_requests
      then_requests send_request sendResponse_def write_console_def)

lemma delivered_defined:
  "(if truthy (case storage st ''deviceId'' of None \<Rightarrow> Undefined | Some v \<Rightarrow> v)
    then (case storage st ''deviceId'' of None \<Rightarrow> Undefined | Some v \<Rightarrow> v)
    else Str uuid) \<noteq> Undefined"
  using truthy_defined by auto

lemma upload_request_shape:
  "url (upload_request e i m u p n d) = ''https://student-attention.onrender.com/api/images''"
  "http_method (upload_request e i m u p n d) = ''POST''"
  "map_of (headers (upload_request e i m u p n d)) ''Content-Type'' = Some ''application/json''"
  by (simp_all add: upload_request_def BACKEND_URL_def)

lemma upload_request_body:
  assumes "Undefined \<notin> set [i, m, u, p, n, d]"
  shows "body (upload_request e i m u p n d) =
     [(''imageData'', i), (''meetingId'', m), (''timestamp'', Str (now e)), (''userId'', u),
      (''participantId'', p), (''userName'', n), (''deviceId'', d)]"
proof -
  from assms have "i \<noteq> Undefined" "m \<noteq> Undefined" "u \<noteq> Undefined" "p \<noteq> Undefined"
    "n \<noteq> Undefined" "d \<noteq> Undefined"
    by auto
  then show ?thesis by (simp add: upload_request_def stringify_members_def)
qed

lemma split_char_nonempty: "split_char c s \<noteq> []"
  by (induction s) (auto split: list.splits)

lemma pop_split_defined: "pop (split_char c s) \<noteq> Undefined"
  using split_char_nonempty [of c s] by (cases "rev (split_char c s)") (auto simp: pop_def)

lemma attr_value_defined: "attr_value a \<noteq> Undefined"
  by (cases a) (simp_all add: attr_value_def)

text \<open>A message that \<open>captureCameraImage\<close> sends has every member the listener reads.\<close>

lemma capture_frame_message:
  assumes "capture_frame toDataURL pg video = Sent message"
  shows "field message ''type'' = Str ''IMAGE_CAPTURED''
    \<and> Undefined \<notin> set (map (field message)
          [''imageData'', ''meetingId'', ''userId'', ''participantId'', ''userName''])"
proof -
  let ?w = "if videoWidth (media video) \<noteq> 0 then videoWidth (media video) else 640"
  let ?h = "if videoHeight (media video) \<noteq> 0 then videoHeight (media video) else 480"
  let ?name = "case querySelector (TagClass ''span'' ''notranslate'') (document pg) of
      None \<Rightarrow> Null | Some nameElem \<Rightarrow> Str (trim (textContent nameElem))"
  let ?user = "case querySelector (HasAttr ''data-self-name'') (document pg) of
      None \<Rightarrow> Null | Some userElem \<Rightarrow> attr_value (getAttribute userElem ''data-self-name'')"
  let ?part = "case querySelector (HasAttr ''data-participant-id'') (document pg) of
      None \<Rightarrow> Null
    | Some participantElem \<Rightarrow> attr_value (getAttribute participantElem ''data-participant-id'')"
  have n: "?name \<noteq> Undefined" by (simp split: option.split)
  have u: "?user \<noteq> Undefined" by (simp add: attr_value_defined split: option.split)
  have p: "?part \<noteq> Undefined" by (simp add: attr_value_defined split: option.split)
  show ?thesis
  proof (cases "toDataURL video ?w ?h")
    case None
    with assms show ?thesis by (simp add: capture_frame_def Let_def)
  next
    case (Some imageData)
    with assms have m: "message =
        [(''type'', Str ''IMAGE_CAPTURED''), (''imageData'', Str imageData),
         (''meetingId'', pop (split_char CHR ''/'' (pathname pg))),
         (''userId'', ?user), (''userName'', ?name), (''participantId'', ?part)]"
      by (simp add: capture_frame_def Let_def)
    have "field message ''type'' = Str ''IMAGE_CAPTURED''"
      and "field message ''imageData'' = Str imageData"
      and "field message ''meetingId'' = pop (split_char CHR ''/'' (pathname pg))"
      and "field message ''userId'' = ?user"
      and "field message ''participantId'' = ?part"
      and "field message ''userName'' = ?name"
      unfolding m field_def by simp_all
    with n u p pop_split_defined [of "CHR ''/''" "pathname pg"] show ?thesis by simp
  qed
qed

lemma captured_message:
  "captureCameraImage toDataURL pages retryCount = (n, Sent message) \<Longrightarrow>
   \<exists>pg video. capture_frame toDataURL pg video = Sent message"
proof (induction toDataURL pages retryCount arbitrary: n rule: captureCameraImage.induct)
  case (1 toDataURL pages retryCount)
  show ?case
  proof (cases "mainVideo (document (pages retryCount))")
    case (Some video)
    with "1.prems" show ?thesis
      by (subst (asm) captureCameraImage.simps) auto
  next
    case None
    show ?thesis
    proof (cases "retryCount < 10")
      case True
      with None "1.prems" obtain n' where
        "captureCameraImage toDataURL pages (retryCount + 1) = (n', Sent message)"
        by (subst (asm) captureCameraImage.simps) (auto split: prod.splits)
      from "1.IH" [OF None True this] show ?thesis .
    next
      case False
      with None "1.prems" show ?thesis
        by (subst (asm) captureCameraImage.simps) simp
    qed
  qed
qed

lemma meet_capture:
  "captureCameraImage (\<lambda>video w h. Some ''data:image/jpeg;base64,AAAA'') (\<lambda>k. meet_page) 0
     = (0, Sent captured)"
  by (subst captureCameraImage.simps)
     (simp add: meet_page_def meet_video_def mainVideo_def querySelectorAll_def suitable_def
        no_media_def capture_frame_def querySelector_def pop_def trim_def is_space_def
        is_html_space_def classList_def tokens_def attr_value_def captured_def)

text \<open>
  C3: when the endpoint answers with a status outside 200..299, \<open>sendImageToBackend\<close>
  rejects with the error \<open>HTTP error! status: N\<close>; the message listener returns
  \<open>true\<close>, replies once with \<open>success: false\<close> and that message, two errors are written
  to the console, exactly one request was made (no retry), and no rejection is left
  unhandled.
\<close>

theorem http_error_reported:
  assumes "field message ''type'' = Str ''IMAGE_CAPTURED''"
    and "fetched e = Response status parsed"
    and "\<not> ok status"
  shows "fst (sendImageToBackend e imageData meetingId userId participantId userName deviceId st)
      = Inl (Error (''HTTP error! status: '' @ show_nat status))
    \<and> fst (on_message e message st) = Bool True
    \<and> responses (snd (on_message e message st)) = responses st @
        [[(''success'', Bool False),
          (''error'', Str (''HTTP error! status: '' @ show_nat status))]]
    \<and> console (snd (on_message e message st)) = console st @
        [(Log, ''Received image from content script for meeting:''),
         (Log, ''Sending image to backend for meeting:''),
         (Err, ''Error sending image to backend:''),
         (Err, ''Failed to send image from background:'')]
    \<and> length (requests (snd (on_message e message st))) = Suc (length (requests st))
    \<and> unhandled (snd (on_message e message st)) = unhandled st"
  using assms
  by (simp add: on_message_def getDeviceId_def sendImageToBackend_def then_do_def
      catch_do_def settle_def sendResponse_def write_console_def Let_def)

theorem http_error_reported_witness:
  "\<not> ok 500
   \<and> responses (snd (on_message server_error captured fresh))
     = [[(''success'', Bool False), (''error'', Str ''HTTP error! status: 500'')]]
   \<and> length (requests (snd (on_message server_error captured fresh))) = 1
   \<and> unhandled (snd (on_message server_error captured fresh)) = []"
proof -
  have h: "\<not> ok 500" by (simp add: ok_def)
  have t: "field captured ''type'' = Str ''IMAGE_CAPTURED''"
    by (simp add: field_def captured_def)
  have f: "fetched server_error = Response 500 None"
    by (simp add: server_error_def)
  have s: "show_nat 500 = ''500''" by simp
  have r: "responses fresh = []" "requests fresh = []" "unhandled fresh = []"
    by (simp_all add: fresh_def)
  from http_error_reported [where st = fresh, OF t f h] h show ?thesis
    by (simp add: s r)
qed

text \<open>
  C7: every call of \<open>sendImageToBackend\<close> makes exactly one request: a POST to the fixed
  endpoint with a JSON content type. When no argument is \<open>undefined\<close>, its body has
  exactly the seven members imageData, meetingId, timestamp, userId, participantId,
  userName and deviceId, each with the value the call was given and the timestamp with
  the client's clock. That is so for every message \<open>captureCameraImage\<close> sends: the
  listener's one request carries the message's image and identifiers and the device
  identifier of \<open>getDeviceId\<close>. The call resolves to \<open>result\<close> exactly when the response
  has a status in 200..299 and the JSON body \<open>result\<close>.
\<close>

theorem upload_is_single_post:
  "requests (snd (sendImageToBackend e imageData meetingId userId participantId userName
                    deviceId st))
     = requests st @ [upload_request e imageData meetingId userId participantId userName deviceId]
   \<and> url (upload_request e imageData meetingId userId participantId userName deviceId)
     = ''https://student-attention.onrender.com/api/images''
   \<and> http_method (upload_request e imageData meetingId userId participantId userName deviceId)
     = ''POST''
   \<and> map_of (headers (upload_request e imageData meetingId userId participantId userName
                          deviceId)) ''Content-Type''
     = Some ''application/json''
   \<and> (Undefined \<notin> set [imageData, meetingId, userId, participantId, userName, deviceId] \<longrightarrow>
        body (upload_request e imageData meetingId userId participantId userName deviceId)
        = [(''imageData'', imageData),
           (''meetingId'', meetingId),
           (''timestamp'', Str (now e)),
           (''userId'', userId),
           (''participantId'', participantId),
           (''userName'', userName),
           (''deviceId'', deviceId)])
   \<and> (captureCameraImage toDataURL pages retryCount = (retries, Sent message) \<longrightarrow>
        (\<exists>req. requests (snd (on_message e message st)) = requests st @ [req]
           \<and> url req = ''https://student-attention.onrender.com/api/images''
           \<and> http_method req = ''POST''
           \<and> body req
             = [(''imageData'', field message ''imageData''),
                (''meetingId'', field message ''meetingId''),
                (''timestamp'', Str (now e)),
                (''userId'', field message ''userId''),
                (''participantId'', field message ''participantId''),
                (''userName'', field message ''userName''),
                (''deviceId'',
                 if truthy (case storage st ''deviceId'' of None \<Rightarrow> Undefined | Some v \<Rightarrow> v)
                 then (case storage st ''deviceId'' of None \<Rightarrow> Undefined | Some v \<Rightarrow> v)
                 else Str (randomUUID e))]))
   \<and> ((fst (sendImageToBackend e imageData meetingId userId participantId userName
               deviceId st) = Inr result)
      = (\<exists>status. fetched e = Response status (Some result)
           \<and> 200 \<le> status \<and> status \<le> 299))"
proof (intro conjI impI)
  show "requests (snd (sendImageToBackend e imageData meetingId userId participantId userName
                    deviceId st))
     = requests st @ [upload_request e imageData meetingId userId participantId userName deviceId]"
    by (rule send_request)
  show "url (upload_request e imageData meetingId userId participantId userName deviceId)
     = ''https://student-attention.onrender.com/api/images''"
    by (rule upload_request_shape)
  show "http_method (upload_request e imageData meetingId userId participantId userName deviceId)
     = ''POST''"
    by (rule upload_request_shape)
  show "map_of (headers (upload_request e imageData meetingId userId participantId userName
                          deviceId)) ''Content-Type''
     = Some ''application/json''"
    by (rule upload_request_shape)
  show "(fst (sendImageToBackend e imageData meetingId userId participantId userName
               deviceId st) = Inr result)
      = (\<exists>status. fetched e = Response status (Some result)
           \<and> 200 \<le> status \<and> status \<le> 299)"
    by (rule send_success)
next
  assume "Undefined \<notin> set [imageData, meetingId, userId, participantId, userName, deviceId]"
  then show "body (upload_request e imageData meetingId userId participantId userName deviceId)
        = [(''imageData'', imageData),
           (''meetingId'', meetingId),
           (''timestamp'', Str (now e)),
           (''userId'', userId),
           (''participantId'', participantId),
           (''userName'', userName),
           (''deviceId'', deviceId)]"
    by (rule upload_request_body)
next
  let ?d = "if truthy (case storage st ''deviceId'' of None \<Rightarrow> Undefined | Some v \<Rightarrow> v)
            then (case storage st ''deviceId'' of None \<Rightarrow> Undefined | Some v \<Rightarrow> v)
            else Str (randomUUID e)"
  let ?req = "upload_request e (field message ''imageData'') (field message ''meetingId'')
         (field message ''userId'') (field message ''participantId'')
         (field message ''userName'') ?d"
  assume "captureCameraImage toDataURL pages retryCount = (retries, Sent message)"
  then obtain pg video where "capture_frame toDataURL pg video = Sent message"
    using captured_message by blast
  from capture_frame_message [OF this]
  have t: "field message ''type'' = Str ''IMAGE_CAPTURED''"
    and f: "Undefined \<notin> set (map (field message)
          [''imageData'', ''meetingId'', ''userId'', ''participantId'', ''userName''])"
    by blast+
  have d: "?d \<noteq> Undefined" by (rule delivered_defined)
  from f d have "Undefined \<notin> set [field message ''imageData'', field message ''meetingId'',
      field message ''userId'', field message ''participantId'', field message ''userName'', ?d]"
    by auto
  from upload_request_body [OF this]
  have b: "body ?req
        = [(''imageData'', field message ''imageData''),
           (''meetingId'', field message ''meetingId''),
           (''timestamp'', Str (now e)),
           (''userId'', field message ''userId''),
           (''participantId'', field message ''participantId''),
           (''userName'', field message ''userName''),
           (''deviceId'', ?d)]" .
  have r: "requests (snd (on_message e message st)) = requests st @ [?req]"
    using t by (rule on_message_request)
  have u: "url ?req = ''https://student-attention.onrender.com/api/images''"
    and m: "http_method ?req = ''POST''"
    by (rule upload_request_shape)+
  from r u m b
  show "\<exists>req. requests (snd (on_message e message st)) = requests st @ [req]
           \<and> url req = ''https://student-attention.onrender.com/api/images''
           \<and> http_method req = ''POST''
           \<and> body req
             = [(''imageData'', field message ''imageData''),
                (''meetingId'', field message ''meetingId''),
                (''timestamp'', Str (now e)),
                (''userId'', field message ''userId''),
                (''participantId'', field message ''participantId''),
                (''userName'', field message ''userName''),
                (''deviceId'', ?d)]"
    by (intro exI [of _ ?req] conjI)
qed

theorem upload_is_single_post_witness:
  "captureCameraImage (\<lambda>video w h. Some ''data:image/jpeg;base64,AAAA'') (\<lambda>k. meet_page) 0
     = (0, Sent captured)
   \<and> body (last (requests (snd (on_message accepted captured fresh))))
     = [(''imageData'', Str ''data:image/jpeg;base64,AAAA''),
        (''meetingId'', Str ''abc-defg-hij''),
        (''timestamp'', Str ''2024-01-01T00:00:00.000Z''),
        (''userId'', Str ''ada''),
        (''participantId'', Str ''p1''),
        (''userName'', Str ''Ada''),
        (''deviceId'', Str ''123e4567-e89b-12d3-a456-426614174000'')]
   \<and> body (upload_request accepted (Str ''data:image/jpeg;base64,AAAA'')
        (Str ''abc-defg-hij'') Null Null Null (Str ''123e4567-e89b-12d3-a456-426614174000''))
     = [(''imageData'', Str ''data:image/jpeg;base64,AAAA''),
        (''meetingId'', Str ''abc-defg-hij''),
        (''timestamp'', Str ''2024-01-01T00:00:00.000Z''),
        (''userId'', Null),
        (''participantId'', Null),
        (''userName'', Null),
        (''deviceId'', Str ''123e4567-e89b-12d3-a456-426614174000'')]"
proof -
  note t = upload_is_single_post [of accepted "Str ''data:image/jpeg;base64,AAAA''"
      "Str ''abc-defg-hij''" Null Null Null "Str ''123e4567-e89b-12d3-a456-426614174000''" fresh
      "\<lambda>video w h. Some ''data:image/jpeg;base64,AAAA''" "\<lambda>k. meet_page" 0 0 captured]
  have d: "Undefined \<notin> set [Str ''data:image/jpeg;base64,AAAA'', Str ''abc-defg-hij'', Null, Null,
      Null, Str ''123e4567-e89b-12d3-a456-426614174000'']"
    by simp
  note c5 = t [THEN conjunct2, THEN conjunct2, THEN conjunct2, THEN conjunct2, THEN conjunct1,
      THEN mp, OF d]
  note c6 = t [THEN conjunct2, THEN conjunct2, THEN conjunct2, THEN conjunct2, THEN conjunct2,
      THEN conjunct1, THEN mp, OF meet_capture]
  have n: "now accepted = ''2024-01-01T00:00:00.000Z''"
    and u: "randomUUID accepted = ''123e4567-e89b-12d3-a456-426614174000''"
    by (simp_all add: accepted_def)
  have s: "storage fresh ''deviceId'' = None" by (simp add: fresh_def)
  have f: "field captured ''imageData'' = Str ''data:image/jpeg;base64,AAAA''"
    "field captured ''meetingId'' = Str ''abc-defg-hij''"
    "field captured ''userId'' = Str ''ada''"
    "field captured ''participantId'' = Str ''p1''"
    "field captured ''userName'' = Str ''Ada''"
    by (simp_all add: field_def captured_def)
  from c6 obtain req where
    "requests (snd (on_message accepted captured fresh)) = requests fresh @ [req]"
    and "body req
      = [(''imageData'', field captured ''imageData''),
         (''meetingId'', field captured ''meetingId''),
         (''timestamp'', Str (now accepted)),
         (''userId'', field captured ''userId''),
         (''participantId'', field captured ''participantId''),
         (''userName'', field captured ''userName''),
         (''deviceId'',
          if truthy (case storage fresh ''deviceId'' of None \<Rightarrow> Undefined | Some v \<Rightarrow> v)
          then (case storage fresh ''deviceId'' of None \<Rightarrow> Undefined | Some v \<Rightarrow> v)
          else Str (randomUUID accepted))]"
    by (elim exE conjE)
  then have "body (last (requests (snd (on_message accepted captured fresh))))
     = [(''imageData'', Str ''data:image/jpeg;base64,AAAA''),
        (''meetingId'', Str ''abc-defg-hij''),
        (''timestamp'', Str ''2024-01-01T00:00:00.000Z''),
        (''userId'', Str ''ada''),
        (''participantId'', Str ''p1''),
        (''userName'', Str ''Ada''),
        (''deviceId'', Str ''123e4567-e89b-12d3-a456-426614174000'')]"
    by (simp add: n u s f)
  moreover from c5 have "body (upload_request accepted (Str ''data:image/jpeg;base64,AAAA'')
        (Str ''abc-defg-hij'') Null Null Null (Str ''123e4567-e89b-12d3-a456-426614174000''))
     = [(''imageData'', Str ''data:image/jpeg;base64,AAAA''),
        (''meetingId'', Str ''abc-defg-hij''),
        (''timestamp'', Str ''2024-01-01T00:00:00.000Z''),
        (''userId'', Null),
        (''participantId'', Null),
        (''userName'', Null),
        (''deviceId'', Str ''123e4567-e89b-12d3-a456-426614174000'')]"
    by (simp add: n)
  ultimately show ?thesis using meet_capture by (intro conjI)
qed

section \<open>The dashboard: what is rendered\<close>







end
